theory Spec2Isabelle
  imports Complex_Main
begin

section \<open>Data model of osm_to_dxf.py\<close>

text \<open>
  Python exceptions that the modelled code can raise implicitly: a dictionary subscript
  \<^verbatim>\<open>d[k]\<close> raises KeyError on a missing key, a list subscript raises IndexError
  out of range.
\<close>

datatype py_error = KeyError | IndexError

text \<open>
  A Python \<^verbatim>\<open>dict\<close> keeps its items in insertion order and
  \<^verbatim>\<open>tags.items()\<close> iterates in that order, so a dictionary is an association list.
  \<^verbatim>\<open>k in d\<close> is \<open>contains\<close>, \<^verbatim>\<open>d[k]\<close> is \<open>subscript\<close>,
  \<^verbatim>\<open>d.get(k)\<close> is \<open>map_of d k\<close>.
\<close>

type_synonym ('k, 'v) dict = "('k \<times> 'v) list"

definition contains :: "'k \<Rightarrow> ('k, 'v) dict \<Rightarrow> bool" where
  "contains k d = (map_of d k \<noteq> None)"

definition subscript :: "('k, 'v) dict \<Rightarrow> 'k \<Rightarrow> py_error + 'v" where
  "subscript d k = (case map_of d k of None \<Rightarrow> Inl KeyError | Some v \<Rightarrow> Inr v)"

text \<open>
  The colour constants of \<^verbatim>\<open>ezdxf.colors\<close> that the layer table names. The library
  is not part of the repository; the constants are kept symbolic.
\<close>

datatype aci = RED | YELLOW | GREEN | CYAN | BLUE | MAGENTA | WHITE | GRAY

text \<open>
  A style dictionary \<^verbatim>\<open>{'layer': ..., 'color': ..., 'lineweight': ...}\<close>. Every style
  dictionary of the source has exactly these three keys.
\<close>

record layer_info =
  layer :: string
  color :: aci
  lineweight :: int

type_synonym tag_dict = "(string, string) dict"

type_synonym config = "(string, (string, layer_info) dict) dict"

text \<open>class LayerMapper: the attributes set by \<^verbatim>\<open>__init__\<close>.\<close>

record LayerMapper =
  layer_config :: config
  use_colors :: bool

definition LayerMapper_init :: "bool \<Rightarrow> LayerMapper" where
  "LayerMapper_init uc = \<lparr>
     layer_config = [
       (''highway'', [
          (''motorway'', \<lparr>layer = ''HIGHWAY_MOTORWAY'', color = RED, lineweight = 100\<rparr>),
          (''trunk'', \<lparr>layer = ''HIGHWAY_TRUNK'', color = RED, lineweight = 80\<rparr>),
          (''primary'', \<lparr>layer = ''HIGHWAY_PRIMARY'', color = YELLOW, lineweight = 60\<rparr>),
          (''secondary'', \<lparr>layer = ''HIGHWAY_SECONDARY'', color = CYAN, lineweight = 40\<rparr>),
          (''tertiary'', \<lparr>layer = ''HIGHWAY_TERTIARY'', color = GREEN, lineweight = 30\<rparr>),
          (''residential'', \<lparr>layer = ''HIGHWAY_RESIDENTIAL'', color = WHITE, lineweight = 20\<rparr>),
          (''service'', \<lparr>layer = ''HIGHWAY_SERVICE'', color = GRAY, lineweight = 10\<rparr>),
          (''footway'', \<lparr>layer = ''HIGHWAY_FOOTWAY'', color = MAGENTA, lineweight = 5\<rparr>),
          (''cycleway'', \<lparr>layer = ''HIGHWAY_CYCLEWAY'', color = BLUE, lineweight = 5\<rparr>),
          (''path'', \<lparr>layer = ''HIGHWAY_PATH'', color = GREEN, lineweight = 5\<rparr>)]),
       (''building'', [
          (''default'', \<lparr>layer = ''BUILDING'', color = GRAY, lineweight = 25\<rparr>)]),
       (''waterway'', [
          (''river'', \<lparr>layer = ''WATERWAY_RIVER'', color = BLUE, lineweight = 50\<rparr>),
          (''stream'', \<lparr>layer = ''WATERWAY_STREAM'', color = BLUE, lineweight = 20\<rparr>),
          (''canal'', \<lparr>layer = ''WATERWAY_CANAL'', color = BLUE, lineweight = 30\<rparr>),
          (''drain'', \<lparr>layer = ''WATERWAY_DRAIN'', color = CYAN, lineweight = 10\<rparr>)]),
       (''natural'', [
          (''water'', \<lparr>layer = ''NATURAL_WATER'', color = BLUE, lineweight = 25\<rparr>),
          (''coastline'', \<lparr>layer = ''NATURAL_COASTLINE'', color = BLUE, lineweight = 50\<rparr>),
          (''tree'', \<lparr>layer = ''NATURAL_TREE'', color = GREEN, lineweight = 5\<rparr>),
          (''forest'', \<lparr>layer = ''NATURAL_FOREST'', color = GREEN, lineweight = 25\<rparr>)]),
       (''amenity'', [
          (''default'', \<lparr>layer = ''AMENITY'', color = MAGENTA, lineweight = 15\<rparr>)]),
       (''landuse'', [
          (''default'', \<lparr>layer = ''LANDUSE'', color = YELLOW, lineweight = 15\<rparr>)])],
     use_colors = uc\<rparr>"

section \<open>LayerMapper.get_layer_info\<close>

text \<open>
  The two returning branches of the loop body are the same statements:
  \<^verbatim>\<open>layer_info = entry.copy(); if not self.use_colors: layer_info['color'] = colors.WHITE;
  return layer_info\<close>. On values the copy is the entry itself; the copy as an
  allocation is modelled in the section on the object store below.
\<close>

definition copy_style :: "LayerMapper \<Rightarrow> layer_info \<Rightarrow> layer_info" where
  "copy_style self entry =
     (let layer_info = entry
      in if \<not> use_colors self then layer_info\<lparr>color := WHITE\<rparr> else layer_info)"

text \<open>
  The \<^verbatim>\<open>for key, value in tags.items()\<close> loop is the recursion over the tag list;
  the statements after the loop are the equation for the empty list.
\<close>

fun get_layer_info :: "LayerMapper \<Rightarrow> tag_dict \<Rightarrow> py_error + layer_info" where
  "get_layer_info self [] =
     (let default_color = (if use_colors self then WHITE else WHITE)
      in Inr \<lparr>layer = ''OSM_OTHER'', color = default_color, lineweight = 10\<rparr>)"
| "get_layer_info self ((key, value) # rest) =
     (if contains key (layer_config self) then
        (case subscript (layer_config self) key of
           Inl e \<Rightarrow> Inl e
         | Inr category \<Rightarrow>
             if contains value category then
               (case subscript category value of
                  Inl e \<Rightarrow> Inl e
                | Inr entry \<Rightarrow> Inr (copy_style self entry))
             else if contains ''default'' category then
               (case subscript category ''default'' of
                  Inl e \<Rightarrow> Inl e
                | Inr entry \<Rightarrow> Inr (copy_style self entry))
             else get_layer_info self rest)
      else get_layer_info self rest)"

section \<open>Nodes, ways and the output document\<close>

text \<open>
  Coordinates are Python floats. The code never computes with them: it stores them, copies
  them and compares them for equality, so they are modelled as reals (a NaN coordinate is
  outside the model). The attributes \<^verbatim>\<open>x\<close> and \<^verbatim>\<open>y\<close> of a node are
  \<^verbatim>\<open>None\<close> until the node is projected.
\<close>

type_synonym point = "real option \<times> real option"

record OSMNode =
  n_id :: int
  n_lat :: real
  n_lon :: real
  n_tags :: tag_dict
  n_x :: "real option"
  n_y :: "real option"


record OSMWay =
  w_id :: int
  w_nodes :: "int list"
  w_tags :: tag_dict
  w_geometry :: "point list"


text \<open>
  The ezdxf document is an external collaborator. It is modelled by the calls the
  generator makes to it, in the order they are made:
  \<^item> \<open>NewLayer\<close>: \<^verbatim>\<open>layer = doc.layers.new(name); layer.color = color; layer.lineweight = lineweight\<close>;
  \<^item> \<open>AddCircle\<close>: \<^verbatim>\<open>msp.add_circle(center, radius, dxfattribs={'layer': name})\<close>;
  \<^item> \<open>AddLWPolyline\<close>: \<^verbatim>\<open>msp.add_lwpolyline(points, close=..., dxfattribs={'layer': name})\<close>.
  The layers that ezdxf itself puts into a new document are not part of the model: the
  layers of the document are those the generator creates.
\<close>

datatype dxf_call =
    NewLayer string aci int
  | AddCircle point real string
  | AddLWPolyline "point list" bool string

text \<open>
  class DXFGenerator. The coordinate transformer is external too (pyproj): its
  \<^verbatim>\<open>transform\<close> is a parameter of the functions that call it, and
  \<open>transform_calls\<close> records the arguments \<^verbatim>\<open>(lon, lat)\<close> of every call made to it.
\<close>

record DXFGenerator =
  doc :: "dxf_call list"
  layer_mapper :: LayerMapper
  transform_calls :: "(real \<times> real) list"
  created_layers :: "string set"


definition create_layer :: "string \<Rightarrow> aci \<Rightarrow> int \<Rightarrow> DXFGenerator \<Rightarrow> DXFGenerator" where
  "create_layer layer_name colr lw self =
     (if layer_name \<notin> created_layers self then
        self\<lparr>doc := doc self @ [NewLayer layer_name colr lw],
             created_layers := insert layer_name (created_layers self)\<rparr>
      else self)"

definition add_circle :: "point \<Rightarrow> real \<Rightarrow> string \<Rightarrow> DXFGenerator \<Rightarrow> DXFGenerator" where
  "add_circle center radius lay self = self\<lparr>doc := doc self @ [AddCircle center radius lay]\<rparr>"

definition add_lwpolyline ::
  "point list \<Rightarrow> bool \<Rightarrow> string \<Rightarrow> DXFGenerator \<Rightarrow> DXFGenerator" where
  "add_lwpolyline points close lay self =
     self\<lparr>doc := doc self @ [AddLWPolyline points close lay]\<rparr>"

section \<open>DXFGenerator.process_nodes\<close>

text \<open>
  The body of the loop over \<^verbatim>\<open>nodes.values()\<close>: the node is projected and its
  attributes are assigned; a node with a significant tag key gets a circle of radius 5.0 on
  its layer. The function returns the node as the body leaves it, and the generator.
\<close>

definition process_node ::
  "(real \<Rightarrow> real \<Rightarrow> real \<times> real) \<Rightarrow> OSMNode \<Rightarrow> DXFGenerator \<Rightarrow>
   py_error + (OSMNode \<times> DXFGenerator)" where
  "process_node transform node self =
     (let (px, py) = transform (n_lon node) (n_lat node);
          self1 = self\<lparr>transform_calls := transform_calls self @ [(n_lon node, n_lat node)]\<rparr>;
          node1 = node\<lparr>n_x := Some px, n_y := Some py\<rparr>
      in if n_tags node1 \<noteq> []
            \<and> list_ex (\<lambda>key. key \<in> set [''amenity'', ''shop'', ''tourism'', ''highway''])
                 (map fst (n_tags node1))
         then
           (case get_layer_info (layer_mapper self1) (n_tags node1) of
              Inl e \<Rightarrow> Inl e
            | Inr layer_info \<Rightarrow>
                Inr (node1,
                     add_circle (n_x node1, n_y node1) 5 (layer layer_info)
                       (create_layer (layer layer_info) (color layer_info)
                          (lineweight layer_info) self1)))
         else Inr (node1, self1))"

fun process_nodes ::
  "(real \<Rightarrow> real \<Rightarrow> real \<times> real) \<Rightarrow> (int, OSMNode) dict \<Rightarrow> DXFGenerator \<Rightarrow>
   py_error + ((int, OSMNode) dict \<times> DXFGenerator)" where
  "process_nodes transform [] self = Inr ([], self)"
| "process_nodes transform ((i, node) # rest) self =
     (case process_node transform node self of
        Inl e \<Rightarrow> Inl e
      | Inr (node1, self1) \<Rightarrow>
          (case process_nodes transform rest self1 of
             Inl e \<Rightarrow> Inl e
           | Inr (rest1, self2) \<Rightarrow> Inr ((i, node1) # rest1, self2)))"

section \<open>DXFGenerator.process_ways\<close>

text \<open>Python's \<^verbatim>\<open>xs[i]\<close>: a negative index counts from the end.\<close>

definition item :: "'a list \<Rightarrow> int \<Rightarrow> py_error + 'a" where
  "item xs i =
     (if 0 \<le> i \<and> i < int (length xs) then Inr (xs ! nat i)
      else if i < 0 \<and> - int (length xs) \<le> i then Inr (xs ! nat (int (length xs) + i))
      else Inl IndexError)"

text \<open>The inner loop: \<^verbatim>\<open>coordinates\<close> grows by one pair per node id found in the store.\<close>

fun way_coordinates ::
  "(int, OSMNode) dict \<Rightarrow> int list \<Rightarrow> point list \<Rightarrow> py_error + point list" where
  "way_coordinates nodes [] coordinates = Inr coordinates"
| "way_coordinates nodes (node_id # ids) coordinates =
     (if contains node_id nodes then
        (case subscript nodes node_id of
           Inl e \<Rightarrow> Inl e
         | Inr node \<Rightarrow> way_coordinates nodes ids (coordinates @ [(n_x node, n_y node)]))
      else way_coordinates nodes ids coordinates)"

text \<open>The body of the loop over the ways; \<^verbatim>\<open>continue\<close> leaves the generator as it is.\<close>

definition process_way ::
  "OSMWay \<Rightarrow> (int, OSMNode) dict \<Rightarrow> DXFGenerator \<Rightarrow> py_error + DXFGenerator" where
  "process_way way nodes self =
     (if w_tags way = [] then Inr self
      else
        (case way_coordinates nodes (w_nodes way) [] of
           Inl e \<Rightarrow> Inl e
         | Inr coordinates \<Rightarrow>
             if length coordinates < 2 then Inr self
             else
               (case get_layer_info (layer_mapper self) (w_tags way) of
                  Inl e \<Rightarrow> Inl e
                | Inr layer_info \<Rightarrow>
                    let self1 = create_layer (layer layer_info) (color layer_info)
                                  (lineweight layer_info) self
                    in if map_of (w_tags way) ''area'' = Some ''yes''
                          \<or> contains ''building'' (w_tags way)
                          \<or> contains ''landuse'' (w_tags way)
                       then
                         (case item coordinates 0 of
                            Inl e \<Rightarrow> Inl e
                          | Inr c0 \<Rightarrow>
                              (case item coordinates (- 1) of
                                 Inl e \<Rightarrow> Inl e
                               | Inr cl \<Rightarrow>
                                   let coordinates1 =
                                         (if c0 \<noteq> cl then coordinates @ [c0] else coordinates)
                                   in Inr (add_lwpolyline coordinates1 True (layer layer_info)
                                             self1)))
                       else Inr (add_lwpolyline coordinates False (layer layer_info) self1))))"

text \<open>
  The node store is passed by reference; process_ways returns it as the loop leaves it,
  next to the generator.
\<close>

fun process_ways ::
  "OSMWay list \<Rightarrow> (int, OSMNode) dict \<Rightarrow> DXFGenerator \<Rightarrow>
   py_error + ((int, OSMNode) dict \<times> DXFGenerator)" where
  "process_ways [] nodes self = Inr (nodes, self)"
| "process_ways (way # ways) nodes self =
     (case process_way way nodes self of
        Inl e \<Rightarrow> Inl e
      | Inr self1 \<Rightarrow> process_ways ways nodes self1)"

section \<open>Reading the document\<close>

text \<open>The layers the document holds, and the geometry added to its model space.\<close>

fun doc_layers :: "dxf_call list \<Rightarrow> (string \<times> aci \<times> int) list" where
  "doc_layers [] = []"
| "doc_layers (NewLayer name colr lw # calls) = (name, colr, lw) # doc_layers calls"
| "doc_layers (_ # calls) = doc_layers calls"


section \<open>The classification rule in the words of the specification\<close>

text \<open>
  The style one tag yields: none when the tag's key is not in the table; the entry of
  the tag's value in that key's value table when there is one; else the key's
  \<^verbatim>\<open>default\<close> entry when there is one; else none.
\<close>

definition tag_style :: "config \<Rightarrow> string \<times> string \<Rightarrow> layer_info option" where
  "tag_style table kv =
     (case map_of table (fst kv) of
        None \<Rightarrow> None
      | Some category \<Rightarrow>
          (case map_of category (snd kv) of
             Some s \<Rightarrow> Some s
           | None \<Rightarrow> map_of category ''default''))"

text \<open>
  The specification's algorithm: go through the tags in their stored order and return the
  configured style of the first tag that yields one; the fallback style when no tag does.
\<close>

definition spec_classify :: "config \<Rightarrow> tag_dict \<Rightarrow> layer_info" where
  "spec_classify table tags =
     (case List.map_filter (tag_style table) tags of
        [] \<Rightarrow> \<lparr>layer = ''OSM_OTHER'', color = WHITE, lineweight = 10\<rparr>
      | s # _ \<Rightarrow> s)"

text \<open>
  The entry of a value in a key's value table, and the \<^verbatim>\<open>default\<close> entry of a
  key, when there is one.
\<close>

definition table_entry :: "config \<Rightarrow> string \<Rightarrow> string \<Rightarrow> layer_info option" where
  "table_entry table key val =
     (case map_of table key of
        None \<Rightarrow> None
      | Some category \<Rightarrow> map_of category val)"

definition default_entry :: "config \<Rightarrow> string \<Rightarrow> layer_info option" where
  "default_entry table key = table_entry table key ''default''"

section \<open>Invariant of the layer registry and auxiliary notions\<close>

text \<open>
  The registry is consistent when the document holds no layer name twice and the names of
  its layers are the members of \<^verbatim>\<open>created_layers\<close>.
\<close>

definition registry_ok :: "DXFGenerator \<Rightarrow> bool" where
  "registry_ok self =
     (distinct (map fst (doc_layers (doc self)))
      \<and> set (map fst (doc_layers (doc self))) = created_layers self)"


text \<open>A node after the assignment \<^verbatim>\<open>node.x, node.y = transform(node.lon, node.lat)\<close>.\<close>

definition project_node :: "(real \<Rightarrow> real \<Rightarrow> real \<times> real) \<Rightarrow> OSMNode \<Rightarrow> OSMNode" where
  "project_node transform node =
     node\<lparr>n_x := Some (fst (transform (n_lon node) (n_lat node))),
          n_y := Some (snd (transform (n_lon node) (n_lat node)))\<rparr>"


section \<open>The classifier on a store of objects\<close>

text \<open>
  Python dictionaries are objects: the layer table holds references to its style
  dictionaries, \<^verbatim>\<open>.copy()\<close> allocates a new dictionary, and
  \<^verbatim>\<open>layer_info['color'] = ...\<close> writes to the object \<^verbatim>\<open>layer_info\<close> refers to.
  The store holds the style dictionaries; an address is an index of the store, and a new
  object is put at the end of it.
\<close>

type_synonym store = "layer_info list"

type_synonym config_refs = "(string, (string, nat) dict) dict"

text \<open>A LayerMapper whose table holds addresses of style dictionaries.\<close>

record LayerMapper_obj =
  layer_config_refs :: config_refs
  use_colors_attr :: bool

definition alloc :: "layer_info \<Rightarrow> store \<Rightarrow> nat \<times> store" where
  "alloc v h = (length h, h @ [v])"

text \<open>
  \<^verbatim>\<open>layer_info = entry.copy(); if not self.use_colors: layer_info['color'] = colors.WHITE;
  return layer_info\<close>, on the store: the result is the address of the copy.
\<close>

definition copy_style_st :: "LayerMapper_obj \<Rightarrow> nat \<Rightarrow> store \<Rightarrow> nat \<times> store" where
  "copy_style_st self entry h =
     (let (layer_info, h1) = alloc (h ! entry) h
      in if \<not> use_colors_attr self
         then (layer_info, h1[layer_info := (h1 ! layer_info)\<lparr>color := WHITE\<rparr>])
         else (layer_info, h1))"

text \<open>
  get_layer_info on the store. The statements are those of \<open>get_layer_info\<close>; the
  result is the address of the returned dictionary and the store after the call.
\<close>

fun get_layer_info_st ::
  "LayerMapper_obj \<Rightarrow> tag_dict \<Rightarrow> store \<Rightarrow> py_error + (nat \<times> store)" where
  "get_layer_info_st self [] h =
     (let default_color = (if use_colors_attr self then WHITE else WHITE)
      in Inr (alloc \<lparr>layer = ''OSM_OTHER'', color = default_color, lineweight = 10\<rparr> h))"
| "get_layer_info_st self ((key, value) # rest) h =
     (if contains key (layer_config_refs self) then
        (case subscript (layer_config_refs self) key of
           Inl e \<Rightarrow> Inl e
         | Inr category \<Rightarrow>
             if contains value category then
               (case subscript category value of
                  Inl e \<Rightarrow> Inl e
                | Inr entry \<Rightarrow> Inr (copy_style_st self entry h))
             else if contains ''default'' category then
               (case subscript category ''default'' of
                  Inl e \<Rightarrow> Inl e
                | Inr entry \<Rightarrow> Inr (copy_style_st self entry h))
             else get_layer_info_st self rest h)
      else get_layer_info_st self rest h)"

text \<open>
  \<^verbatim>\<open>LayerMapper.__init__\<close> on the store: every style dictionary of the table literal
  is allocated, in the order of the literal.
\<close>

fun store_category ::
  "(string, layer_info) dict \<Rightarrow> store \<Rightarrow> (string, nat) dict \<times> store" where
  "store_category [] h = ([], h)"
| "store_category ((val, style) # rest) h =
     (let (a, h1) = alloc style h;
          (refs, h2) = store_category rest h1
      in ((val, a) # refs, h2))"

fun store_config :: "config \<Rightarrow> store \<Rightarrow> config_refs \<times> store" where
  "store_config [] h = ([], h)"
| "store_config ((key, category) # rest) h =
     (let (crefs, h1) = store_category category h;
          (refs, h2) = store_config rest h1
      in ((key, crefs) # refs, h2))"

definition LayerMapper_new :: "bool \<Rightarrow> store \<Rightarrow> LayerMapper_obj \<times> store" where
  "LayerMapper_new uc h =
     (let (refs, h1) = store_config (layer_config (LayerMapper_init uc)) h
      in (\<lparr>layer_config_refs = refs, use_colors_attr = uc\<rparr>, h1))"

text \<open>The LayerMapper value that an object and a store stand for.\<close>

definition load :: "store \<Rightarrow> LayerMapper_obj \<Rightarrow> LayerMapper" where
  "load h self =
     \<lparr>layer_config =
        map (\<lambda>(key, category). (key, map (\<lambda>(val, a). (val, h ! a)) category))
          (layer_config_refs self),
      use_colors = use_colors_attr self\<rparr>"

text \<open>Every reference of the table is the address of an object of the store.\<close>

definition refs_ok :: "LayerMapper_obj \<Rightarrow> store \<Rightarrow> bool" where
  "refs_ok self h =
     list_all (\<lambda>(key, category). list_all (\<lambda>(val, a). a < length h) category)
       (layer_config_refs self)"

text \<open>
  What a caller can do, any number of times: call get_layer_info, or assign to a style
  dictionary it was returned (the k-th of the addresses returned so far).
\<close>

datatype action = Classify tag_dict | Mutate nat layer_info

fun run ::
  "LayerMapper_obj \<Rightarrow> action list \<Rightarrow> store \<times> nat list \<Rightarrow> py_error + (store \<times> nat list)" where
  "run self [] (h, returned) = Inr (h, returned)"
| "run self (Classify tags # acts) (h, returned) =
     (case get_layer_info_st self tags h of
        Inl e \<Rightarrow> Inl e
      | Inr (r, h1) \<Rightarrow> run self acts (h1, returned @ [r]))"
| "run self (Mutate k v # acts) (h, returned) =
     (if k < length returned then run self acts (h[returned ! k := v], returned)
      else run self acts (h, returned))"

text \<open>
  The objects of the store \<open>h0\<close> are still there and unchanged, and every address
  returned to the caller lies beyond them.
\<close>

definition history_ok :: "store \<Rightarrow> store \<times> nat list \<Rightarrow> bool" where
  "history_ok h0 st =
     (take (length h0) (fst st) = h0 \<and> length h0 \<le> length (fst st)
      \<and> list_all (\<lambda>r. length h0 \<le> r) (snd st))"

section \<open>Properties of the classifier\<close>

lemma get_layer_info_returns:
  "\<exists>s. get_layer_info self tags = Inr s"
proof (induction tags)
  case Nil
  show ?case by simp
next
  case (Cons kv rest)
  obtain key val where kv: "kv = (key, val)" by (cases kv)
  show ?case
  proof (cases "map_of (layer_config self) key")
    case None
    with Cons kv show ?thesis by (simp add: contains_def)
  next
    case (Some category)
    show ?thesis
    proof (cases "map_of category val")
      case inner: (Some entry)
      with Some kv show ?thesis by (simp add: contains_def subscript_def)
    next
      case inner: None
      show ?thesis
      proof (cases "map_of category ''default''")
        case None
        with inner Some Cons kv show ?thesis by (simp add: contains_def subscript_def)
      next
        case (Some entry)
        with inner \<open>map_of (layer_config self) key = Some category\<close> kv show ?thesis
          by (simp add: contains_def subscript_def)
      qed
    qed
  qed
qed

text \<open>
  C10. For the empty tag mapping and for either value of the flag, get_layer_info returns
  exactly the fallback style: layer OSM_OTHER, colour white, line weight 10. For every tag
  mapping (and every mapper) it returns a style: no subscript of the function raises.
\<close>

theorem C10_empty_tags_fallback:
  "get_layer_info (LayerMapper_init uc) [] =
     Inr \<lparr>layer = ''OSM_OTHER'', color = WHITE, lineweight = 10\<rparr>
   \<and> (\<exists>s. get_layer_info self tags = Inr s)"
  using get_layer_info_returns [of self tags] by simp

lemma get_layer_info_Cons:
  "get_layer_info self (kv # rest) =
     (case tag_style (layer_config self) kv of
        Some s \<Rightarrow> Inr (copy_style self s)
      | None \<Rightarrow> get_layer_info self rest)"
proof -
  obtain key val where kv: "kv = (key, val)" by (cases kv)
  show ?thesis
  proof (cases "map_of (layer_config self) key")
    case None
    with kv show ?thesis by (simp add: contains_def tag_style_def)
  next
    case (Some category)
    with kv show ?thesis
      by (cases "map_of category val"; cases "map_of category ''default''")
         (simp_all add: contains_def subscript_def tag_style_def)
  qed
qed

lemma get_layer_info_map_filter:
  "get_layer_info self tags =
     (case List.map_filter (tag_style (layer_config self)) tags of
        [] \<Rightarrow> Inr \<lparr>layer = ''OSM_OTHER'', color = WHITE, lineweight = 10\<rparr>
      | s # _ \<Rightarrow> Inr (copy_style self s))"
proof (induction tags)
  case Nil
  show ?case by (simp add: List.map_filter_simps)
next
  case (Cons kv rest)
  show ?case
  proof (cases "tag_style (layer_config self) kv")
    case None
    with Cons show ?thesis
      by (simp only: get_layer_info_Cons List.map_filter_simps option.case)
  next
    case (Some s)
    then show ?thesis
      by (simp only: get_layer_info_Cons List.map_filter_simps option.case list.case)
  qed
qed

text \<open>
  C1 (as amended). For every tag mapping and flag value, get_layer_info returns the style
  the specification's algorithm selects: the configured style of the first tag, in stored
  order, whose key is in the table and whose value, or else the key's default entry, is
  found there, and the fallback style OSM_OTHER / white / 10 when there is no such tag.
  When use_colors is false the colour of the returned style is white instead of the
  configured colour.
\<close>

theorem C1_classification_algorithm:
  "get_layer_info self tags =
     Inr (if use_colors self then spec_classify (layer_config self) tags
          else (spec_classify (layer_config self) tags)\<lparr>color := WHITE\<rparr>)"
  by (cases "List.map_filter (tag_style (layer_config self)) tags")
     (simp_all add: get_layer_info_map_filter spec_classify_def copy_style_def)

text \<open>
  C1 as stated fails for use_colors = false: the configured style of highway=motorway has
  colour red, the returned one is white.
\<close>

theorem C1_counterexample:
  "spec_classify (layer_config (LayerMapper_init False)) [(''highway'', ''motorway'')] =
     \<lparr>layer = ''HIGHWAY_MOTORWAY'', color = RED, lineweight = 100\<rparr>
   \<and> get_layer_info (LayerMapper_init False) [(''highway'', ''motorway'')] =
     Inr \<lparr>layer = ''HIGHWAY_MOTORWAY'', color = WHITE, lineweight = 100\<rparr>
   \<and> get_layer_info (LayerMapper_init False) [(''highway'', ''motorway'')] \<noteq>
     Inr (spec_classify (layer_config (LayerMapper_init False)) [(''highway'', ''motorway'')])"
  by (simp add: LayerMapper_init_def spec_classify_def tag_style_def contains_def
      subscript_def copy_style_def)

lemma get_layer_info_use_colors:
  "get_layer_info (self\<lparr>use_colors := uc\<rparr>) tags =
     (case get_layer_info (self\<lparr>use_colors := True\<rparr>) tags of
        Inl e \<Rightarrow> Inl e
      | Inr s \<Rightarrow> Inr (if uc then s else s\<lparr>color := WHITE\<rparr>))"
  by (cases "List.map_filter (tag_style (layer_config self)) tags")
     (simp_all add: get_layer_info_map_filter copy_style_def)

lemma LayerMapper_init_use_colors:
  "LayerMapper_init uc = (LayerMapper_init True)\<lparr>use_colors := uc\<rparr>"
  by (simp add: LayerMapper_init_def)

text \<open>
  C6. For every tag mapping, get_layer_info with use_colors = false returns the same layer
  name and the same line weight as with use_colors = true, and its colour is white. The
  same holds over any layer table, not only the configured one.
\<close>

theorem C6_monochrome_preserves_layer_and_weight:
  "\<exists>s0 s1.
     get_layer_info (LayerMapper_init False) tags = Inr s0
   \<and> get_layer_info (LayerMapper_init True) tags = Inr s1
   \<and> layer s0 = layer s1 \<and> lineweight s0 = lineweight s1 \<and> color s0 = WHITE
   \<and> (\<exists>t0 t1.
        get_layer_info (self\<lparr>use_colors := False\<rparr>) tags = Inr t0
      \<and> get_layer_info (self\<lparr>use_colors := True\<rparr>) tags = Inr t1
      \<and> layer t0 = layer t1 \<and> lineweight t0 = lineweight t1 \<and> color t0 = WHITE)"
proof -
  obtain s1 where s1: "get_layer_info (LayerMapper_init True) tags = Inr s1"
    using get_layer_info_returns by blast
  then have "get_layer_info ((LayerMapper_init True)\<lparr>use_colors := True\<rparr>) tags = Inr s1"
    by (simp add: LayerMapper_init_def)
  then have s0: "get_layer_info (LayerMapper_init False) tags = Inr (s1\<lparr>color := WHITE\<rparr>)"
    using get_layer_info_use_colors [where self = "LayerMapper_init True" and uc = False and tags = tags]
    by (simp add: LayerMapper_init_use_colors [of False])
  obtain t1 where t1: "get_layer_info (self\<lparr>use_colors := True\<rparr>) tags = Inr t1"
    using get_layer_info_returns by blast
  then have t0: "get_layer_info (self\<lparr>use_colors := False\<rparr>) tags = Inr (t1\<lparr>color := WHITE\<rparr>)"
    using get_layer_info_use_colors [where self = self and uc = False and tags = tags] by simp
  from s0 s1 t0 t1 show ?thesis by simp
qed

lemma get_layer_info_skip:
  "\<forall>kv \<in> set pre. tag_style (layer_config self) kv = None \<Longrightarrow>
   get_layer_info self (pre @ rest) = get_layer_info self rest"
  by (induction pre) (simp_all add: get_layer_info_Cons del: get_layer_info.simps)

text \<open>
  C7 (as amended). When a tag mapping contains a key of the table whose value is not in
  that key's value table, the key's table has a default entry, and no earlier tag of the
  mapping yields a style, get_layer_info returns that default entry, with the colour
  replaced by white when use_colors is false.
\<close>

theorem C7_unmatched_value_default:
  assumes "tags = pre @ (key, val) # post"
    and "\<forall>kv \<in> set pre. tag_style (layer_config self) kv = None"
    and "contains key (layer_config self)"
    and "table_entry (layer_config self) key val = None"
    and "default_entry (layer_config self) key = Some d"
  shows "get_layer_info self tags = Inr (if use_colors self then d else d\<lparr>color := WHITE\<rparr>)"
proof -
  from assms(3) obtain category where cat: "map_of (layer_config self) key = Some category"
    by (auto simp: contains_def)
  with assms(4) have v: "map_of category val = None"
    by (simp add: table_entry_def)
  from cat assms(5) have d: "map_of category ''default'' = Some d"
    by (simp add: default_entry_def table_entry_def)
  from cat v d have "tag_style (layer_config self) (key, val) = Some d"
    by (simp add: tag_style_def)
  then have "get_layer_info self ((key, val) # post) = Inr (copy_style self d)"
    by (simp only: get_layer_info_Cons option.case)
  with assms(1,2) show ?thesis
    by (simp add: get_layer_info_skip copy_style_def del: get_layer_info.simps)
qed

theorem C7_unmatched_value_default_witness:
  "contains ''building'' (layer_config (LayerMapper_init False))
   \<and> table_entry (layer_config (LayerMapper_init False)) ''building'' ''yes'' = None
   \<and> default_entry (layer_config (LayerMapper_init False)) ''building'' =
       Some \<lparr>layer = ''BUILDING'', color = GRAY, lineweight = 25\<rparr>
   \<and> get_layer_info (LayerMapper_init False)
       [(''name'', ''Main St''), (''highway'', ''track''), (''building'', ''yes''),
        (''amenity'', ''cafe'')] =
       Inr \<lparr>layer = ''BUILDING'', color = WHITE, lineweight = 25\<rparr>"
proof -
  let ?M = "LayerMapper_init False"
  let ?d = "\<lparr>layer = ''BUILDING'', color = GRAY, lineweight = 25\<rparr>"
  have h1: "[(''name'', ''Main St''), (''highway'', ''track''), (''building'', ''yes''),
        (''amenity'', ''cafe'')] =
      [(''name'', ''Main St''), (''highway'', ''track'')] @ (''building'', ''yes'') #
        [(''amenity'', ''cafe'')]"
    by simp
  have h2: "\<forall>kv \<in> set [(''name'', ''Main St''), (''highway'', ''track'')].
      tag_style (layer_config ?M) kv = None"
    by (simp add: LayerMapper_init_def tag_style_def)
  have h3: "contains ''building'' (layer_config ?M)"
    by (simp add: LayerMapper_init_def contains_def)
  have h4: "table_entry (layer_config ?M) ''building'' ''yes'' = None"
    by (simp add: LayerMapper_init_def table_entry_def)
  have h5: "default_entry (layer_config ?M) ''building'' = Some ?d"
    by (simp add: LayerMapper_init_def default_entry_def table_entry_def)
  have u: "use_colors ?M = False"
    by (simp add: LayerMapper_init_def)
  from C7_unmatched_value_default [OF h1 h2 h3 h4 h5] h3 h4 h5 u show ?thesis
    by simp
qed

text \<open>
  C7 as stated fails where the key's table has no default entry: highway is a key of the
  table, track is not in its value table, and the result is the fallback style.
\<close>

theorem C7_counterexample:
  "contains ''highway'' (layer_config (LayerMapper_init True))
   \<and> table_entry (layer_config (LayerMapper_init True)) ''highway'' ''track'' = None
   \<and> default_entry (layer_config (LayerMapper_init True)) ''highway'' = None
   \<and> get_layer_info (LayerMapper_init True) [(''highway'', ''track'')] =
       Inr \<lparr>layer = ''OSM_OTHER'', color = WHITE, lineweight = 10\<rparr>
   \<and> Some (get_layer_info (LayerMapper_init True) [(''highway'', ''track'')]) \<noteq>
       map_option Inr (default_entry (layer_config (LayerMapper_init True)) ''highway'')"
  by (simp add: LayerMapper_init_def contains_def table_entry_def default_entry_def
      subscript_def)

section \<open>Properties of the generator\<close>

lemma doc_layers_append: "doc_layers (xs @ ys) = doc_layers xs @ doc_layers ys"
  by (induction xs rule: doc_layers.induct) simp_all












lemma way_coordinates_eq:
  "way_coordinates nodes ids acc =
     Inr (acc @ map (\<lambda>n. (n_x n, n_y n)) (List.map_filter (map_of nodes) ids))"
proof (induction ids arbitrary: acc)
  case Nil
  show ?case by (simp add: List.map_filter_simps)
next
  case (Cons node_id ids)
  show ?case
    by (cases "map_of nodes node_id")
       (simp_all add: Cons contains_def subscript_def List.map_filter_simps)
qed

lemma item_first: "xs \<noteq> [] \<Longrightarrow> item xs 0 = Inr (hd xs)"
  by (cases xs) (simp_all add: item_def)

lemma item_last: "xs \<noteq> [] \<Longrightarrow> item xs (- 1) = Inr (last xs)"
proof -
  assume ne: "xs \<noteq> []"
  then have "nat (int (length xs) + - 1) = length xs - 1" by (cases xs) simp_all
  moreover from ne have "1 \<le> int (length xs)" by (cases xs) simp_all
  ultimately show ?thesis using ne by (simp add: item_def last_conv_nth)
qed



lemma process_way_eq:
  assumes "get_layer_info (layer_mapper self) (w_tags way) = Inr li"
  shows "process_way way nodes self =
     Inr (let cs = map (\<lambda>n. (n_x n, n_y n)) (List.map_filter (map_of nodes) (w_nodes way))
          in if w_tags way = [] \<or> length cs < 2 then self
             else if map_of (w_tags way) ''area'' = Some ''yes''
                     \<or> contains ''building'' (w_tags way) \<or> contains ''landuse'' (w_tags way)
             then add_lwpolyline (if hd cs \<noteq> last cs then cs @ [hd cs] else cs) True (layer li)
                    (create_layer (layer li) (color li) (lineweight li) self)
             else add_lwpolyline cs False (layer li)
                    (create_layer (layer li) (color li) (lineweight li) self))"
proof -
  let ?cs = "map (\<lambda>n. (n_x n, n_y n)) (List.map_filter (map_of nodes) (w_nodes way))"
  have wc: "way_coordinates nodes (w_nodes way) [] = Inr ?cs"
    by (simp add: way_coordinates_eq)
  show ?thesis
  proof (cases "w_tags way = [] \<or> length ?cs < 2")
    case True
    then show ?thesis by (auto simp: process_way_def wc)
  next
    case False
    then have ne: "?cs \<noteq> []" by auto
    from False show ?thesis
      unfolding process_way_def wc
      by (simp add: assms item_first [OF ne] item_last [OF ne] Let_def)
  qed
qed


lemma process_ways_append:
  "process_ways (ways1 @ ways2) nodes self =
     (case process_ways ways1 nodes self of
        Inl e \<Rightarrow> Inl e
      | Inr (nodes1, self1) \<Rightarrow> process_ways ways2 nodes1 self1)"
  by (induction ways1 arbitrary: self) (simp_all split: sum.splits)





lemma significant_tags_iff:
  "(tags \<noteq> [] \<and> list_ex (\<lambda>key. key \<in> set [''amenity'', ''shop'', ''tourism'', ''highway''])
        (map fst tags))
   \<longleftrightarrow> fst ` set tags \<inter> {''amenity'', ''shop'', ''tourism'', ''highway''} \<noteq> {}"
proof -
  have "(tags \<noteq> [] \<and> list_ex (\<lambda>key. key \<in> S) (map fst tags)) \<longleftrightarrow> fst ` set tags \<inter> S \<noteq> {}"
    for S :: "string set"
    by (auto simp: list_ex_iff)
  from this [of "set [''amenity'', ''shop'', ''tourism'', ''highway'']"] show ?thesis
    by simp
qed

lemma process_node_eq:
  assumes "get_layer_info (layer_mapper self) (n_tags node) = Inr li"
  shows "process_node transform node self =
     Inr (node\<lparr>n_x := Some (fst (transform (n_lon node) (n_lat node))),
               n_y := Some (snd (transform (n_lon node) (n_lat node)))\<rparr>,
          if fst ` set (n_tags node) \<inter> {''amenity'', ''shop'', ''tourism'', ''highway''} \<noteq> {}
          then add_circle (Some (fst (transform (n_lon node) (n_lat node))),
                           Some (snd (transform (n_lon node) (n_lat node)))) 5 (layer li)
                 (create_layer (layer li) (color li) (lineweight li)
                    (self\<lparr>transform_calls :=
                            transform_calls self @ [(n_lon node, n_lat node)]\<rparr>))
          else self\<lparr>transform_calls := transform_calls self @ [(n_lon node, n_lat node)]\<rparr>)"
  unfolding process_node_def
  by (simp add: significant_tags_iff [of "n_tags node"] assms Let_def split_beta
      del: set_simps)


lemma process_nodes_append:
  "process_nodes transform (nodes1 @ nodes2) self =
     (case process_nodes transform nodes1 self of
        Inl e \<Rightarrow> Inl e
      | Inr (done1, self1) \<Rightarrow>
          (case process_nodes transform nodes2 self1 of
             Inl e \<Rightarrow> Inl e
           | Inr (done2, self2) \<Rightarrow> Inr (done1 @ done2, self2)))"
proof (induction nodes1 arbitrary: self)
  case Nil
  show ?case by (simp split: sum.splits prod.splits)
next
  case (Cons entry rest)
  obtain i node where "entry = (i, node)" by (cases entry)
  with Cons show ?case
    by (simp split: sum.splits prod.splits)
qed



lemma process_node_frame:
  "\<exists>self1.
     process_node transform node self = Inr (project_node transform node, self1)
   \<and> transform_calls self1 = transform_calls self @ [(n_lon node, n_lat node)]
   \<and> layer_mapper self1 = layer_mapper self
   \<and> (registry_ok self \<longrightarrow> registry_ok self1)"
proof -
  obtain li where li: "get_layer_info (layer_mapper self) (n_tags node) = Inr li"
    using get_layer_info_returns by blast
  show ?thesis
    unfolding process_node_eq [OF li] project_node_def
    by (simp add: add_circle_def create_layer_def registry_ok_def doc_layers_append)
qed

lemma process_way_frame:
  "\<exists>self1.
     process_way way nodes self = Inr self1
   \<and> transform_calls self1 = transform_calls self
   \<and> layer_mapper self1 = layer_mapper self
   \<and> (registry_ok self \<longrightarrow> registry_ok self1)"
proof -
  obtain li where li: "get_layer_info (layer_mapper self) (w_tags way) = Inr li"
    using get_layer_info_returns by blast
  show ?thesis
    unfolding process_way_eq [OF li]
    by (simp add: Let_def add_lwpolyline_def create_layer_def registry_ok_def
        doc_layers_append)
qed

lemma process_nodes_frame:
  "\<exists>self1.
     process_nodes transform nodes self =
       Inr (map (\<lambda>(i, node). (i, project_node transform node)) nodes, self1)
   \<and> transform_calls self1 =
       transform_calls self @ map (\<lambda>(i, node). (n_lon node, n_lat node)) nodes
   \<and> layer_mapper self1 = layer_mapper self
   \<and> (registry_ok self \<longrightarrow> registry_ok self1)"
proof (induction nodes arbitrary: self)
  case Nil
  show ?case by simp
next
  case (Cons entry rest)
  obtain i node where entry: "entry = (i, node)" by (cases entry)
  obtain self1 where s1: "process_node transform node self = Inr (project_node transform node, self1)"
    and t1: "transform_calls self1 = transform_calls self @ [(n_lon node, n_lat node)]"
    and m1: "layer_mapper self1 = layer_mapper self"
    and r1: "registry_ok self \<longrightarrow> registry_ok self1"
    using process_node_frame [of transform node self] by blast
  obtain self2 where s2: "process_nodes transform rest self1 =
       Inr (map (\<lambda>(i, node). (i, project_node transform node)) rest, self2)"
    and t2: "transform_calls self2 =
       transform_calls self1 @ map (\<lambda>(i, node). (n_lon node, n_lat node)) rest"
    and m2: "layer_mapper self2 = layer_mapper self1"
    and r2: "registry_ok self1 \<longrightarrow> registry_ok self2"
    using Cons.IH [of self1] by blast
  from s1 s2 t1 t2 m1 m2 r1 r2 show ?case
    by (simp add: entry)
qed

lemma process_ways_frame:
  "\<exists>self1.
     process_ways ways nodes self = Inr (nodes, self1)
   \<and> transform_calls self1 = transform_calls self
   \<and> layer_mapper self1 = layer_mapper self
   \<and> (registry_ok self \<longrightarrow> registry_ok self1)"
proof (induction ways arbitrary: self)
  case Nil
  show ?case by simp
next
  case (Cons way ways)
  obtain self1 where s1: "process_way way nodes self = Inr self1"
    and t1: "transform_calls self1 = transform_calls self"
    and m1: "layer_mapper self1 = layer_mapper self"
    and r1: "registry_ok self \<longrightarrow> registry_ok self1"
    using process_way_frame [of way nodes self] by blast
  obtain self2 where s2: "process_ways ways nodes self1 = Inr (nodes, self2)"
    and t2: "transform_calls self2 = transform_calls self1"
    and m2: "layer_mapper self2 = layer_mapper self1"
    and r2: "registry_ok self1 \<longrightarrow> registry_ok self2"
    using Cons.IH [of self1] by blast
  from s1 s2 t1 t2 m1 m2 r1 r2 show ?case
    by simp
qed

text \<open>
  C8. process_nodes calls the projection exactly once per node of the store, in the order
  of the store, and assigns the result to the node. process_ways, whatever ways it is
  given, makes no call to the projection and returns the node store as it received it.
\<close>

theorem C8_projection_once:
  "\<exists>nodes1 self1 self2.
     process_nodes transform nodes self = Inr (nodes1, self1)
   \<and> nodes1 = map (\<lambda>(i, node). (i, project_node transform node)) nodes
   \<and> transform_calls self1 =
       transform_calls self @ map (\<lambda>(i, node). (n_lon node, n_lat node)) nodes
   \<and> process_ways ways nodes1 self1 = Inr (nodes1, self2)
   \<and> transform_calls self2 = transform_calls self1"
proof -
  obtain self1 where n: "process_nodes transform nodes self =
       Inr (map (\<lambda>(i, node). (i, project_node transform node)) nodes, self1)"
    and t1: "transform_calls self1 =
       transform_calls self @ map (\<lambda>(i, node). (n_lon node, n_lat node)) nodes"
    using process_nodes_frame [of transform nodes self] by blast
  obtain self2 where w: "process_ways ways
       (map (\<lambda>(i, node). (i, project_node transform node)) nodes) self1 =
       Inr (map (\<lambda>(i, node). (i, project_node transform node)) nodes, self2)"
    and t2: "transform_calls self2 = transform_calls self1"
    using process_ways_frame
      [of ways "map (\<lambda>(i, node). (i, project_node transform node)) nodes" self1]
    by blast
  from n t1 w t2 show ?thesis by blast
qed




section \<open>Properties of the classifier on the store\<close>

lemma refs_ok_entry:
  assumes "refs_ok self h"
    and "map_of (layer_config_refs self) key = Some category"
    and "map_of category val = Some a"
  shows "a < length h"
proof -
  from assms(2) have "(key, category) \<in> set (layer_config_refs self)"
    by (rule map_of_SomeD)
  with assms(1) have "list_all (\<lambda>(val, a). a < length h) category"
    by (auto simp: refs_ok_def list_all_iff)
  moreover from assms(3) have "(val, a) \<in> set category"
    by (rule map_of_SomeD)
  ultimately show ?thesis
    by (auto simp: list_all_iff)
qed

lemma refs_ok_mono: "refs_ok self h \<Longrightarrow> length h \<le> length h' \<Longrightarrow> refs_ok self h'"
  by (fastforce simp: refs_ok_def list_all_iff)

lemma load_agree:
  assumes "refs_ok self h0" and "take (length h0) h = h0"
  shows "load h self = load h0 self"
proof -
  have nth: "h ! a = h0 ! a" if "a < length h0" for a
  proof -
    from that have "take (length h0) h ! a = h ! a" by simp
    with assms(2) show ?thesis by simp
  qed
  have "map (\<lambda>(val, a). (val, h ! a)) category = map (\<lambda>(val, a). (val, h0 ! a)) category"
    if "(key, category) \<in> set (layer_config_refs self)" for key category
  proof -
    from that assms(1) have "\<forall>(val, a) \<in> set category. a < length h0"
      by (auto simp: refs_ok_def list_all_iff)
    then show ?thesis by (auto simp: nth)
  qed
  then show ?thesis
    by (auto simp: load_def)
qed

lemma load_lookup:
  "map_of (layer_config (load h self)) key =
     map_option (map (\<lambda>(val, a). (val, h ! a))) (map_of (layer_config_refs self) key)"
  by (simp add: load_def map_of_map)

lemma category_lookup:
  "map_of (map (\<lambda>(val, a). (val, h ! a)) category) val =
     map_option (\<lambda>a. h ! a) (map_of category val)"
  by (simp add: map_of_map)

lemma copy_style_st_eq:
  "a < length h \<Longrightarrow>
   copy_style_st self a h = (length h, h @ [copy_style (load h self) (h ! a)])"
  by (simp add: copy_style_st_def alloc_def copy_style_def load_def nth_append)

lemma get_layer_info_st_refines:
  assumes "refs_ok self h"
  shows "get_layer_info_st self tags h =
     (case get_layer_info (load h self) tags of
        Inl e \<Rightarrow> Inl e
      | Inr s \<Rightarrow> Inr (length h, h @ [s]))"
proof (induction tags)
  case Nil
  show ?case by (simp add: alloc_def load_def)
next
  case (Cons kv rest)
  obtain key val where kv: "kv = (key, val)" by (cases kv)
  show ?case
  proof (cases "map_of (layer_config_refs self) key")
    case None
    with Cons kv show ?thesis
      by (simp add: contains_def load_lookup)
  next
    case (Some category)
    note cat = this
    show ?thesis
    proof (cases "map_of category val")
      case (Some a)
      from refs_ok_entry [OF assms cat Some] have "a < length h" .
      with Some cat kv show ?thesis
        by (simp add: contains_def subscript_def load_lookup category_lookup copy_style_st_eq)
    next
      case None
      note nov = this
      show ?thesis
      proof (cases "map_of category ''default''")
        case None
        with nov cat Cons kv show ?thesis
          by (simp add: contains_def subscript_def load_lookup category_lookup)
      next
        case (Some a)
        from refs_ok_entry [OF assms cat Some] have "a < length h" .
        with Some nov cat kv show ?thesis
          by (simp add: contains_def subscript_def load_lookup category_lookup copy_style_st_eq)
      qed
    qed
  qed
qed

lemma get_layer_info_st_fresh:
  assumes "refs_ok self h"
  shows "\<exists>s. get_layer_info (load h self) tags = Inr s
           \<and> get_layer_info_st self tags h = Inr (length h, h @ [s])"
proof -
  obtain s where "get_layer_info (load h self) tags = Inr s"
    using get_layer_info_returns by blast
  then show ?thesis
    by (simp add: get_layer_info_st_refines [OF assms])
qed

lemma run_preserves:
  assumes "refs_ok self h0"
  shows "history_ok h0 st \<Longrightarrow> \<exists>st'. run self acts st = Inr st' \<and> history_ok h0 st'"
proof (induction acts arbitrary: st)
  case Nil
  then show ?case by (cases st) simp
next
  case (Cons act acts)
  obtain h returned where st: "st = (h, returned)" by (cases st)
  from Cons.prems st have pre: "take (length h0) h = h0" and len: "length h0 \<le> length h"
    and ret: "list_all (\<lambda>r. length h0 \<le> r) returned"
    by (simp_all add: history_ok_def)
  show ?case
  proof (cases act)
    case (Classify tags)
    from assms len have ok: "refs_ok self h" by (rule refs_ok_mono)
    obtain s where s: "get_layer_info_st self tags h = Inr (length h, h @ [s])"
      using get_layer_info_st_fresh [OF ok] by blast
    from pre len ret have "history_ok h0 (h @ [s], returned @ [length h])"
      by (simp add: history_ok_def)
    from Cons.IH [OF this] show ?thesis
      by (simp add: st Classify s)
  next
    case (Mutate k v)
    show ?thesis
    proof (cases "k < length returned")
      case True
      with ret have "length h0 \<le> returned ! k"
        by (simp add: list_all_length)
      with pre len ret have "history_ok h0 (h[returned ! k := v], returned)"
        by (simp add: history_ok_def take_update_cancel)
      from Cons.IH [OF this] True show ?thesis
        by (simp add: st Mutate)
    next
      case False
      from Cons.prems st have "history_ok h0 (h, returned)" by simp
      from Cons.IH [OF this] False show ?thesis
        by (simp add: st Mutate)
    qed
  qed
qed

text \<open>
  C9. get_layer_info never changes the layer table. From a store in which every reference
  of the table is valid, after any sequence of calls of get_layer_info and of assignments
  by the caller to the dictionaries it was returned: every object that was in the store at
  the start, so every entry of the table, is unchanged, and the table read from the store
  is the same; a further call on any tag mapping returns a new address (the length of the
  store, which is the address of no earlier object), leaves all earlier objects as they
  are, and the dictionary at that address is the style that get_layer_info yields on the
  table as it was at the start, so repeated calls return equal results.
\<close>

theorem C9_table_unchanged:
  assumes "refs_ok self h0"
  shows "\<exists>h returned s.
      run self acts (h0, []) = Inr (h, returned)
    \<and> take (length h0) h = h0
    \<and> load h self = load h0 self
    \<and> get_layer_info (load h0 self) tags = Inr s
    \<and> get_layer_info_st self tags h = Inr (length h, h @ [s])"
proof -
  have "history_ok h0 (h0, [])" by (simp add: history_ok_def)
  from run_preserves [OF assms this, of acts]
  obtain h returned where r: "run self acts (h0, []) = Inr (h, returned)"
    and hist: "history_ok h0 (h, returned)"
    by (metis surj_pair)
  from hist have pre: "take (length h0) h = h0" and len: "length h0 \<le> length h"
    by (simp_all add: history_ok_def)
  from assms pre have ld: "load h self = load h0 self" by (rule load_agree)
  from assms len have ok: "refs_ok self h" by (rule refs_ok_mono)
  from get_layer_info_st_fresh [OF ok, of tags] ld
  obtain s where "get_layer_info (load h0 self) tags = Inr s"
    and "get_layer_info_st self tags h = Inr (length h, h @ [s])"
    by auto
  with r pre ld show ?thesis by blast
qed

lemma LayerMapper_new_ok:
  "refs_ok (fst (LayerMapper_new uc [])) (snd (LayerMapper_new uc []))
   \<and> load (snd (LayerMapper_new uc [])) (fst (LayerMapper_new uc [])) = LayerMapper_init uc"
  by (simp add: LayerMapper_new_def LayerMapper_init_def alloc_def refs_ok_def load_def)

theorem C9_table_unchanged_witness:
  "refs_ok (fst (LayerMapper_new False [])) (snd (LayerMapper_new False []))
   \<and> (\<exists>h returned.
        run (fst (LayerMapper_new False []))
          [Classify [(''building'', ''yes'')],
           Mutate 0 \<lparr>layer = ''X'', color = RED, lineweight = 1\<rparr>]
          (snd (LayerMapper_new False []), []) = Inr (h, returned)
      \<and> take (length (snd (LayerMapper_new False []))) h = snd (LayerMapper_new False [])
      \<and> get_layer_info_st (fst (LayerMapper_new False [])) [(''building'', ''yes'')] h =
          Inr (length h, h @ [\<lparr>layer = ''BUILDING'', color = WHITE, lineweight = 25\<rparr>]))"
proof -
  let ?m = "fst (LayerMapper_new False [])"
  let ?h0 = "snd (LayerMapper_new False [])"
  have ok: "refs_ok ?m ?h0"
    using LayerMapper_new_ok [of False] by blast
  have ld: "load ?h0 ?m = LayerMapper_init False"
    using LayerMapper_new_ok [of False] by blast
  have s: "get_layer_info (LayerMapper_init False) [(''building'', ''yes'')] =
      Inr \<lparr>layer = ''BUILDING'', color = WHITE, lineweight = 25\<rparr>"
    by (simp add: LayerMapper_init_def contains_def subscript_def copy_style_def)
  from C9_table_unchanged [OF ok, of
      "[Classify [(''building'', ''yes'')],
        Mutate 0 \<lparr>layer = ''X'', color = RED, lineweight = 1\<rparr>]"
      "[(''building'', ''yes'')]"]
  obtain h returned s' where
    r: "run ?m [Classify [(''building'', ''yes'')],
           Mutate 0 \<lparr>layer = ''X'', color = RED, lineweight = 1\<rparr>] (?h0, []) = Inr (h, returned)"
    and t: "take (length ?h0) h = ?h0"
    and g: "get_layer_info (load ?h0 ?m) [(''building'', ''yes'')] = Inr s'"
    and c: "get_layer_info_st ?m [(''building'', ''yes'')] h = Inr (length h, h @ [s'])"
    by blast
  from g ld s have "s' = \<lparr>layer = ''BUILDING'', color = WHITE, lineweight = 25\<rparr>"
    by simp
  with ok r t c show ?thesis by blast
qed

end
